theory Spec2Isabelle
  imports Complex_Main "HOL-Library.Word"
begin

section \<open>Frame and calibration extraction: a model of \<open>process_data.py\<close>\<close>

text \<open>
  The script pairs calibration files with videos (\<open>get_paired_data\<close>), decodes each
  video into RGB arrays (\<open>load_video\<close>) and writes the calibration record and the
  transformed frames (\<open>main\<close>). Exceptions are values of \<open>error\<close>; a function that can
  raise returns \<open>error + 'a\<close> with \<open>Inl\<close> for the exception.
\<close>

datatype error =
    FileNotFoundError
  | UnicodeDecodeError
  | JSONDecodeError
  | AvError
  | CvError
  | KeyError
  | IndexError
  | TypeError
  | AssertionError
  | NameError

subsection \<open>Strings and paths\<close>

text \<open>
  \<open>s.replace(old, new)\<close>: every non-overlapping occurrence of \<open>old\<close>, scanning from the
  left, becomes \<open>new\<close>. With an empty \<open>old\<close> Python puts \<open>new\<close> before every character
  and at the end.
\<close>

function str_replace :: "string \<Rightarrow> string \<Rightarrow> string \<Rightarrow> string" where
  "str_replace [] old new = (if old = [] then new else [])"
| "str_replace (c # cs) old new =
     (if old = [] then new @ c # str_replace cs old new
      else if take (length old) (c # cs) = old
        then new @ str_replace (drop (length old) (c # cs)) old new
      else c # str_replace cs old new)"
  by pat_completeness auto
termination
  by (relation "measure (\<lambda>(s, old, new). length s)") (auto simp: neq_Nil_conv)

text \<open>\<open>name.rfind(c)\<close>: the index of the last occurrence of \<open>c\<close>; \<open>None\<close> is Python's \<open>-1\<close>.\<close>

primrec rfind_from :: "char \<Rightarrow> string \<Rightarrow> nat \<Rightarrow> nat option" where
  "rfind_from c [] i = None"
| "rfind_from c (x # xs) i =
     (case rfind_from c xs (Suc i) of
        Some j \<Rightarrow> Some j
      | None \<Rightarrow> if x = c then Some i else None)"

definition rfind :: "string \<Rightarrow> char \<Rightarrow> nat option" where
  "rfind s c = rfind_from c s 0"

text \<open>
  \<open>Path(fp).stem\<close> of pathlib, for \<open>fp\<close> an entry of \<open>os.listdir\<close>: an entry is one path
  component, so \<open>Path(fp).name\<close> is \<open>fp\<close> itself, and the stem drops the last suffix:
  \<open>i = name.rfind('.')\<close>, then \<open>name[:i]\<close> if \<open>0 < i < len(name) - 1\<close>, else \<open>name\<close>.
\<close>

definition path_stem :: "string \<Rightarrow> string" where
  "path_stem name =
     (case rfind name (CHR ''.'') of
        None \<Rightarrow> name
      | Some i \<Rightarrow> if 0 < i \<and> Suc i < length name then take i name else name)"

text \<open>
  \<open>os.path.join(a, b)\<close> of posixpath: an absolute \<open>b\<close> replaces \<open>a\<close>; otherwise \<open>b\<close> is
  appended, after a \<open>/\<close> unless \<open>a\<close> is empty or already ends with one.
\<close>

definition path_join :: "string \<Rightarrow> string \<Rightarrow> string" where
  "path_join a b =
     (if b \<noteq> [] \<and> hd b = CHR ''/'' then b
      else if a = [] \<or> last a = CHR ''/'' then a @ b
      else a @ ''/'' @ b)"

text \<open>The decimal text of a non-negative integer, as \<open>f'{idx}'\<close> formats a loop index.\<close>

definition digit_char :: "nat \<Rightarrow> char" where
  "digit_char d = ''0123456789'' ! d"

fun str_of_nat :: "nat \<Rightarrow> string" where
  "str_of_nat n =
     (if n < 10 then [digit_char n] else str_of_nat (n div 10) @ [digit_char (n mod 10)])"

declare str_of_nat.simps [simp del]

subsection \<open>Pairing: \<open>get_paired_data\<close>\<close>

text \<open>
  The names are collected in a Python \<open>set\<close>. The model keeps a set as a duplicate-free
  list in order of first insertion; the order in which Python iterates over a set is
  not fixed by the source, so statements about several pairs are made about the set of
  the result.
\<close>

definition set_add :: "'a list \<Rightarrow> 'a \<Rightarrow> 'a list" where
  "set_add names x = (if x \<in> set names then names else names @ [x])"

definition base_name :: "string \<Rightarrow> string" where
  "base_name fp = str_replace (path_stem fp) ''_calibration'' ''''"

definition collect_names :: "string list \<Rightarrow> string list" where
  "collect_names entries = foldl (\<lambda>names fp. set_add names (base_name fp)) [] entries"

definition make_pair :: "string \<Rightarrow> string \<Rightarrow> string \<Rightarrow> string \<times> string" where
  "make_pair root_dir video_ext name =
     (path_join root_dir (name @ ''.json''), path_join root_dir (name @ ''.'' @ video_ext))"

definition pairs_of :: "string \<Rightarrow> string list \<Rightarrow> string \<Rightarrow> (string \<times> string) list" where
  "pairs_of root_dir entries video_ext =
     map (make_pair root_dir video_ext) (collect_names entries)"

subsection \<open>Data: JSON values, arrays, frames and the file system\<close>

text \<open>
  What \<open>json.load\<close> returns: \<open>JNull\<close> is Python's \<open>None\<close>, a number is an exact
  rational (the rounding of binary floating point is not modelled), an object is the
  association list of its keys.
\<close>

datatype json =
    JNull
  | JBool bool
  | JNum rat
  | JStr string
  | JArr "json list"
  | JObj "(string \<times> json) list"

text \<open>An image array of 8-bit channels, indexed row, column, channel.\<close>

type_synonym ndarray = "8 word list list list"

definition has_shape :: "ndarray \<Rightarrow> nat \<Rightarrow> nat \<Rightarrow> nat \<Rightarrow> bool" where
  "has_shape a h w c \<longleftrightarrow>
     length a = h \<and> (\<forall>row \<in> set a. length row = w \<and> (\<forall>px \<in> set row. length px = c))"

text \<open>The \<open>shape\<close> attribute, as \<open>print\<close> shows it for the first frame.\<close>

definition shape :: "ndarray \<Rightarrow> nat \<times> nat \<times> nat" where
  "shape a =
     (length a,
      (case a of [] \<Rightarrow> 0 | row # _ \<Rightarrow> length row),
      (case a of (px # _) # _ \<Rightarrow> length px | _ \<Rightarrow> 0))"

text \<open>The number of columns: the length of the first row.\<close>

definition ncols :: "ndarray \<Rightarrow> nat" where
  "ncols a = (case a of [] \<Rightarrow> 0 | row # _ \<Rightarrow> length row)"

text \<open>
  A decoded video frame of PyAV: its presentation time in seconds (\<open>None\<close> when the
  stream carries none), its dimensions, and the value the decoder gives for row,
  column and channel in the \<open>rgb24\<close> format.
\<close>

record frame =
  ftime :: "rat option"
  fheight :: nat
  fwidth :: nat
  frgb :: "nat \<Rightarrow> nat \<Rightarrow> nat \<Rightarrow> 8 word"

text \<open>\<open>frame.to_ndarray(format="rgb24")\<close>: an array of shape height, width, 3.\<close>

definition to_ndarray :: "frame \<Rightarrow> ndarray" where
  "to_ndarray f =
     map (\<lambda>i. map (\<lambda>j. map (\<lambda>c. frgb f i j c) [0..<3]) [0..<fwidth f]) [0..<fheight f]"

text \<open>
  The file system is a map from paths to file contents, the set of directories made,
  and what \<open>os.listdir\<close> gives for a directory; standard output is the list of shapes
  printed. A file is one of:
  \<^item> a JSON document, holding the value \<open>json.load\<close> reads from it and \<open>json.dump\<close>
    wrote to it;
  \<^item> other text in UTF-8, which is no JSON document;
  \<^item> a media container with a video stream, holding the frames the first video
    stream decodes to;
  \<^item> a media container without a video stream (sound only);
  \<^item> a PNG image, holding the array \<open>cv.imwrite\<close> stored, channels in the order blue,
    green, red;
  \<^item> other bytes, neither UTF-8 text nor media.
\<close>

datatype file_content =
    JsonFile json
  | TextFile
  | VideoFile "frame list"
  | AudioFile
  | ImageFile ndarray
  | BinaryFile

record world =
  files :: "string \<rightharpoonup> file_content"
  dirs :: "string set"
  listing :: "string \<rightharpoonup> string list"
  stdout :: "(nat \<times> nat \<times> nat) list"

definition listdir :: "world \<Rightarrow> string \<Rightarrow> error + string list" where
  "listdir w d = (case listing w d of None \<Rightarrow> Inl FileNotFoundError | Some es \<Rightarrow> Inr es)"

text \<open>\<open>os.makedirs(d, exist_ok=True)\<close>; its own failures are not modelled.\<close>

definition makedirs :: "world \<Rightarrow> string \<Rightarrow> world" where
  "makedirs w d = w\<lparr>dirs := insert d (dirs w)\<rparr>"

text \<open>\<open>with open(fp, 'w') as fout: json.dump(js, fp=fout)\<close>.\<close>

definition dump_json :: "world \<Rightarrow> string \<Rightarrow> json \<Rightarrow> world" where
  "dump_json w fp js = w\<lparr>files := (files w)(fp \<mapsto> JsonFile js)\<rparr>"

text \<open>\<open>cv.imwrite(path, img)\<close>: the file is created or overwritten.\<close>

definition imwrite :: "world \<Rightarrow> string \<Rightarrow> ndarray \<Rightarrow> world" where
  "imwrite w fp img = w\<lparr>files := (files w)(fp \<mapsto> ImageFile img)\<rparr>"

text \<open>
  What PyAV decodes from a PNG image: one frame of the size of the image, at time 0.
  Its \<open>rgb24\<close> values are the stored blue, green, red (and alpha, which is dropped) in
  the order red, green, blue; a single grey channel is repeated. A PNG has no other
  channel count.
\<close>

fun png_rgb :: "8 word list \<Rightarrow> 8 word list" where
  "png_rgb [b, g, r] = [r, g, b]"
| "png_rgb [b, g, r, a] = [r, g, b]"
| "png_rgb [v] = [v, v, v]"
| "png_rgb px = [0, 0, 0]"

definition image_frame :: "ndarray \<Rightarrow> frame" where
  "image_frame img =
     \<lparr>ftime = Some 0, fheight = length img, fwidth = ncols img,
      frgb = (\<lambda>i j c. png_rgb (img ! i ! j) ! c)\<rparr>"

text \<open>
  \<open>av.open(fp)\<close>: a missing file and a file that is no media file are refused. The
  container that is returned is the frame list of its first video stream, or \<open>None\<close>
  when it has no video stream.
\<close>

definition av_open :: "world \<Rightarrow> string \<Rightarrow> error + frame list option" where
  "av_open w fp =
     (case files w fp of
        None \<Rightarrow> Inl FileNotFoundError
      | Some (VideoFile fs) \<Rightarrow> Inr (Some fs)
      | Some (ImageFile img) \<Rightarrow> Inr (Some [image_frame img])
      | Some AudioFile \<Rightarrow> Inr None
      | Some _ \<Rightarrow> Inl AvError)"

text \<open>
  \<open>container.decode(video=0)\<close>, line 21: selecting video stream 0 of a container that
  has none raises \<open>IndexError\<close>.
\<close>

definition decode_video :: "frame list option \<Rightarrow> error + frame list" where
  "decode_video container =
     (case container of None \<Rightarrow> Inl IndexError | Some fs \<Rightarrow> Inr fs)"

definition get_paired_data ::
  "world \<Rightarrow> string \<Rightarrow> string \<Rightarrow> error + (string \<times> string) list" where
  "get_paired_data w root_dir video_ext =
     (case listdir w root_dir of
        Inl e \<Rightarrow> Inl e
      | Inr entries \<Rightarrow> Inr (pairs_of root_dir entries video_ext))"

subsection \<open>\<open>load_json\<close>\<close>

text \<open>
  \<open>open(fp, 'r')\<close> fails on a missing file; \<open>json.load\<close> reads the file as text, which
  fails with \<open>UnicodeDecodeError\<close> on bytes that are not UTF-8, and then parses it,
  which fails with \<open>JSONDecodeError\<close> on text that is no JSON document.
\<close>

definition load_json :: "world \<Rightarrow> string \<Rightarrow> error + json" where
  "load_json w fp =
     (case files w fp of
        None \<Rightarrow> Inl FileNotFoundError
      | Some (JsonFile js) \<Rightarrow> Inr js
      | Some TextFile \<Rightarrow> Inl JSONDecodeError
      | Some _ \<Rightarrow> Inl UnicodeDecodeError)"

subsection \<open>Decoding: \<open>load_video\<close>\<close>

text \<open>\<open>v[k]\<close> for a string key \<open>k\<close> and \<open>v[i]\<close> for a non-negative integer \<open>i\<close>.\<close>

fun subscript_key :: "json \<Rightarrow> string \<Rightarrow> error + json" where
  "subscript_key (JObj kvs) k = (case map_of kvs k of None \<Rightarrow> Inl KeyError | Some v \<Rightarrow> Inr v)"
| "subscript_key _ k = Inl TypeError"

fun subscript_idx :: "json \<Rightarrow> nat \<Rightarrow> error + json" where
  "subscript_idx (JArr xs) i = (if i < length xs then Inr (xs ! i) else Inl IndexError)"
| "subscript_idx (JStr s) i = (if i < length s then Inr (JStr [s ! i]) else Inl IndexError)"
| "subscript_idx (JObj kvs) i = Inl KeyError"
| "subscript_idx _ i = Inl TypeError"

text \<open>The value of an operand of \<open>+\<close> or \<open>-\<close> with a float: numbers, and booleans as 0 and 1.\<close>

fun as_number :: "json \<Rightarrow> rat option" where
  "as_number (JNum r) = Some r"
| "as_number (JBool b) = Some (if b then 1 else 0)"
| "as_number _ = None"

text \<open>\<open>abs_ts = frame.time + start_time\<close>.\<close>

definition abs_timestamp :: "frame \<Rightarrow> json \<Rightarrow> error + rat" where
  "abs_timestamp f start_time =
     (case ftime f of
        None \<Rightarrow> Inl TypeError
      | Some t \<Rightarrow> (case as_number start_time of None \<Rightarrow> Inl TypeError | Some s \<Rightarrow> Inr (t + s)))"

text \<open>\<open>calibration_data['frames'][idx]['timestamp']\<close>.\<close>

definition recorded_timestamp :: "json \<Rightarrow> nat \<Rightarrow> error + json" where
  "recorded_timestamp calibration_data idx =
     (case subscript_key calibration_data ''frames'' of
        Inl e \<Rightarrow> Inl e
      | Inr frs \<Rightarrow>
          (case subscript_idx frs idx of
             Inl e \<Rightarrow> Inl e
           | Inr entry \<Rightarrow> subscript_key entry ''timestamp''))"

text \<open>\<open>abs(abs_ts - calibration_data['frames'][idx]['timestamp'])\<close>, the left side of line 33.\<close>

definition discrepancy :: "json \<Rightarrow> json \<Rightarrow> nat \<Rightarrow> frame \<Rightarrow> error + rat" where
  "discrepancy calibration_data start_time idx f =
     (case abs_timestamp f start_time of
        Inl e \<Rightarrow> Inl e
      | Inr abs_ts \<Rightarrow>
          (case recorded_timestamp calibration_data idx of
             Inl e \<Rightarrow> Inl e
           | Inr ts \<Rightarrow>
               (case as_number ts of
                  None \<Rightarrow> Inl TypeError
                | Some t \<Rightarrow> Inr \<bar>abs_ts - t\<bar>)))"

text \<open>
  The three assertions of lines 33 to 35. The second one starts by reading
  \<open>timestamps[idx]\<close>; no \<open>timestamps\<close> is bound in the function, the module or the
  builtins, so it raises \<open>NameError\<close> and the third is never reached. (Assertions are
  taken as enabled, the interpreter's default.)
\<close>

definition check_frame :: "json \<Rightarrow> json \<Rightarrow> nat \<Rightarrow> frame \<Rightarrow> error + unit" where
  "check_frame calibration_data start_time idx f =
     (case discrepancy calibration_data start_time idx f of
        Inl e \<Rightarrow> Inl e
      | Inr d \<Rightarrow> if d < 1 / 1000 then Inl NameError else Inl AssertionError)"

text \<open>The loop over \<open>enumerate(container.decode(video=0))\<close>, with \<open>rgb\<close> the list so far.\<close>

fun decode_loop ::
  "json \<Rightarrow> json \<Rightarrow> nat \<Rightarrow> frame list \<Rightarrow> ndarray list \<Rightarrow> world \<Rightarrow> (error + ndarray list) \<times> world"
where
  "decode_loop calibration_data start_time idx [] rgb w = (Inr rgb, w)"
| "decode_loop calibration_data start_time idx (f # fs) rgb w =
     (let frame_rgb = to_ndarray f;
          rgb' = rgb @ [frame_rgb];
          w' = (if idx = 0 then w\<lparr>stdout := stdout w @ [shape frame_rgb]\<rparr> else w)
      in if calibration_data \<noteq> JNull
         then (case check_frame calibration_data start_time idx f of
                 Inl e \<Rightarrow> (Inl e, w')
               | Inr _ \<Rightarrow> decode_loop calibration_data start_time (Suc idx) fs rgb' w')
         else decode_loop calibration_data start_time (Suc idx) fs rgb' w')"

text \<open>
  \<open>load_video(fp, calibration_data)\<close>; \<open>JNull\<close> is the default \<open>None\<close>. \<open>start_time\<close> is
  bound only when a calibration record is given, and read only then. The container
  is opened first (line 17), then \<open>sessionStartTime\<close> is read (line 19), then the video
  stream is selected and decoded (line 21).
\<close>

definition load_video :: "world \<Rightarrow> string \<Rightarrow> json \<Rightarrow> (error + ndarray list) \<times> world" where
  "load_video w fp calibration_data =
     (case av_open w fp of
        Inl e \<Rightarrow> (Inl e, w)
      | Inr container \<Rightarrow>
          (case (if calibration_data \<noteq> JNull
                 then subscript_key calibration_data ''sessionStartTime''
                 else Inr JNull) of
             Inl e \<Rightarrow> (Inl e, w)
           | Inr start_time \<Rightarrow>
               (case decode_video container of
                  Inl e \<Rightarrow> (Inl e, w)
                | Inr frames \<Rightarrow> decode_loop calibration_data start_time 0 frames [] w)))"

subsection \<open>The image transform of the writing stage\<close>

text \<open>
  \<open>cv.cvtColor(img, cv.COLOR_RGB2BGR)\<close> exchanges the first and third channel of
  every pixel; OpenCV rejects an empty array and any channel count other than 3 or 4.
  \<open>cv.COLOR_BGR2RGB\<close> is the same conversion code.
\<close>

fun swap_rb :: "8 word list \<Rightarrow> 8 word list" where
  "swap_rb [r, g, b] = [b, g, r]"
| "swap_rb [r, g, b, a] = [b, g, r, a]"
| "swap_rb px = px"

definition cvtColor_RGB2BGR :: "ndarray \<Rightarrow> error + ndarray" where
  "cvtColor_RGB2BGR src =
     (if concat (concat src) = [] then Inl CvError
      else if \<exists>row \<in> set src. \<exists>px \<in> set row. length px \<noteq> 3 \<and> length px \<noteq> 4 then Inl CvError
      else Inr (map (map swap_rb) src))"

definition cvtColor_BGR2RGB :: "ndarray \<Rightarrow> error + ndarray" where
  "cvtColor_BGR2RGB src = cvtColor_RGB2BGR src"

text \<open>
  \<open>cv.rotate(img, cv.ROTATE_90_CLOCKWISE)\<close>: for a source of \<open>h\<close> rows and \<open>w\<close> columns
  the result has \<open>w\<close> rows and \<open>h\<close> columns, with \<open>dst[i][j] = src[h - 1 - j][i]\<close>;
  \<open>cv.ROTATE_90_COUNTERCLOCKWISE\<close> gives \<open>dst[i][j] = src[j][w - 1 - i]\<close>.
\<close>

definition rotate_90_clockwise :: "ndarray \<Rightarrow> ndarray" where
  "rotate_90_clockwise src =
     (let h = length src; w = ncols src
      in map (\<lambda>i. map (\<lambda>j. src ! (h - 1 - j) ! i) [0..<h]) [0..<w])"

definition rotate_90_counterclockwise :: "ndarray \<Rightarrow> ndarray" where
  "rotate_90_counterclockwise src =
     (let h = length src; w = ncols src
      in map (\<lambda>i. map (\<lambda>j. src ! j ! (w - 1 - i)) [0..<h]) [0..<w])"

text \<open>Lines 70 and 71 of \<open>main\<close>: what is done to a frame before it is written.\<close>

definition transform_frame :: "ndarray \<Rightarrow> error + ndarray" where
  "transform_frame frame =
     (case cvtColor_RGB2BGR frame of
        Inl e \<Rightarrow> Inl e
      | Inr bgr \<Rightarrow> Inr (rotate_90_clockwise bgr))"

text \<open>The inverse the round-trip property names: rotate back, then swap back.\<close>

definition inverse_transform :: "ndarray \<Rightarrow> error + ndarray" where
  "inverse_transform img = cvtColor_BGR2RGB (rotate_90_counterclockwise img)"

subsection \<open>Writing and orchestration: \<open>main\<close>\<close>

text \<open>The inner loop of \<open>main\<close>, lines 68 to 72, from index \<open>idx\<close> on.\<close>

definition frame_path :: "string \<Rightarrow> nat \<Rightarrow> string" where
  "frame_path video_outdir idx = path_join video_outdir (str_of_nat idx @ ''.png'')"

fun write_frames :: "string \<Rightarrow> nat \<Rightarrow> ndarray list \<Rightarrow> world \<Rightarrow> (error + unit) \<times> world" where
  "write_frames video_outdir idx [] w = (Inr (), w)"
| "write_frames video_outdir idx (frame # rest) w =
     (case transform_frame frame of
        Inl e \<Rightarrow> (Inl e, w)
      | Inr img \<Rightarrow>
          write_frames video_outdir (Suc idx) rest (imwrite w (frame_path video_outdir idx) img))"

text \<open>Lines 60 to 72: the output directory, the calibration file, then the frames.\<close>

definition video_outdir_of :: "string \<Rightarrow> nat \<Rightarrow> string" where
  "video_outdir_of outdir idx = path_join outdir (''video_'' @ str_of_nat idx)"

definition write_outputs ::
  "string \<Rightarrow> json \<Rightarrow> ndarray list \<Rightarrow> world \<Rightarrow> (error + unit) \<times> world" where
  "write_outputs video_outdir calibration_json video_rgb w =
     (let w1 = makedirs w video_outdir;
          w2 = dump_json w1 (path_join video_outdir ''calibration.json'') calibration_json
      in write_frames video_outdir 0 video_rgb w2)"

text \<open>
  The body of the loop over the pairs, lines 57 to 72. \<open>load_video\<close> is called with the
  video path only, so its \<open>calibration_data\<close> is the default \<open>None\<close>.
\<close>

definition process_pair ::
  "string \<Rightarrow> nat \<Rightarrow> string \<times> string \<Rightarrow> world \<Rightarrow> (error + unit) \<times> world" where
  "process_pair outdir idx pair w =
     (case load_json w (fst pair) of
        Inl e \<Rightarrow> (Inl e, w)
      | Inr calibration_json \<Rightarrow>
          (case load_video w (snd pair) JNull of
             (Inl e, w1) \<Rightarrow> (Inl e, w1)
           | (Inr video_rgb, w1) \<Rightarrow>
               write_outputs (video_outdir_of outdir idx) calibration_json video_rgb w1))"

fun process_pairs ::
  "string \<Rightarrow> nat \<Rightarrow> (string \<times> string) list \<Rightarrow> world \<Rightarrow> (error + unit) \<times> world" where
  "process_pairs outdir idx [] w = (Inr (), w)"
| "process_pairs outdir idx (pair # rest) w =
     (case process_pair outdir idx pair w of
        (Inl e, w') \<Rightarrow> (Inl e, w')
      | (Inr _, w') \<Rightarrow> process_pairs outdir (Suc idx) rest w')"

definition root_dir :: string where
  "root_dir = ''/Users/elizabethterveen/Desktop/lpwm.ExInt-Capture-2 2026-02-19 10:17.24.843.xcappdata/AppData/Documents''"

text \<open>
  \<open>main\<close>; \<open>now\<close> is the text \<open>datetime.now().strftime("%d_%b_%Y_%I.%M")\<close> gives when the
  run starts.
\<close>

definition main :: "string \<Rightarrow> world \<Rightarrow> (error + unit) \<times> world" where
  "main now w =
     (let outdir = path_join ''parsed_videos'' now;
          w0 = makedirs w outdir
      in case get_paired_data w0 root_dir ''mov'' of
           Inl e \<Rightarrow> (Inl e, w0)
         | Inr data_pairs \<Rightarrow> process_pairs outdir 0 data_pairs w0)"

text \<open>
  An array that OpenCV accepts as a colour image: at least one row and one column,
  three channels in every pixel.
\<close>

definition is_rgb_image :: "ndarray \<Rightarrow> bool" where
  "is_rgb_image a \<longleftrightarrow> a \<noteq> [] \<and> hd a \<noteq> [] \<and> has_shape a (length a) (length (hd a)) 3"

subsection \<open>Example data\<close>

text \<open>
  One frame of one row and two columns, a calibration record whose timestamp agrees
  with it and one whose timestamp is five seconds off, and a directory with the two
  files of one capture.
\<close>

definition example_frame :: frame where
  "example_frame = \<lparr>ftime = Some 0, fheight = 1, fwidth = 2, frgb = (\<lambda>i j c. of_nat (10 * j + c))\<rparr>"

definition calibration_matching :: json where
  "calibration_matching =
     JObj [(''sessionStartTime'', JNum 100), (''frames'', JArr [JObj [(''timestamp'', JNum 100)]])]"

definition calibration_deviating :: json where
  "calibration_deviating =
     JObj [(''sessionStartTime'', JNum 100), (''frames'', JArr [JObj [(''timestamp'', JNum 105)]])]"

definition example_world :: world where
  "example_world =
     \<lparr>files = [''/d/a.json'' \<mapsto> JsonFile calibration_deviating,
               ''/d/a.mov'' \<mapsto> VideoFile [example_frame]],
      dirs = {}, listing = [''/d'' \<mapsto> [''a.json'', ''a.mov'']], stdout = []\<rparr>"

text \<open>The same capture in the directory \<open>main\<close> reads.\<close>

definition capture_world :: world where
  "capture_world =
     \<lparr>files = [path_join root_dir ''a.json'' \<mapsto> JsonFile calibration_deviating,
               path_join root_dir ''a.mov'' \<mapsto> VideoFile [example_frame]],
      dirs = {}, listing = [root_dir \<mapsto> [''a.json'', ''a.mov'']], stdout = []\<rparr>"

section \<open>Properties of pairing\<close>





lemma base_name_a_json: "base_name ''a.json'' = ''a''"
  by (simp add: base_name_def path_stem_def rfind_def)

lemma base_name_a_mov: "base_name ''a.mov'' = ''a''"
  by (simp add: base_name_def path_stem_def rfind_def)

lemma base_name_a_calibration_json: "base_name ''a_calibration.json'' = ''a''"
  by (simp add: base_name_def path_stem_def rfind_def)

text \<open>
  C4. A directory that lists exactly \<open>a.json\<close> and \<open>a.mov\<close>, in either order, is paired
  into exactly one pair: the path of \<open>a.json\<close> and the path of \<open>a.mov\<close> under the
  directory.
\<close>

theorem pairing_a_json_a_mov:
  assumes "listdir w rdir = Inr entries"
    and "entries = [''a.json'', ''a.mov''] \<or> entries = [''a.mov'', ''a.json'']"
  shows "get_paired_data w rdir ''mov'' =
           Inr [(path_join rdir ''a.json'', path_join rdir ''a.mov'')]"
  using assms
  by (auto simp: get_paired_data_def pairs_of_def collect_names_def set_add_def make_pair_def
      base_name_a_json base_name_a_mov)

theorem pairing_a_json_a_mov_witness:
  "listdir \<lparr>files = Map.empty, dirs = {}, listing = [''/d'' \<mapsto> [''a.mov'', ''a.json'']],
            stdout = []\<rparr> ''/d'' = Inr [''a.mov'', ''a.json'']
   \<and> get_paired_data \<lparr>files = Map.empty, dirs = {},
         listing = [''/d'' \<mapsto> [''a.mov'', ''a.json'']], stdout = []\<rparr> ''/d'' ''mov''
       = Inr [(''/d/a.json'', ''/d/a.mov'')]"
  using pairing_a_json_a_mov
    [of "\<lparr>files = Map.empty, dirs = {}, listing = [''/d'' \<mapsto> [''a.mov'', ''a.json'']],
          stdout = []\<rparr>" "''/d''" "[''a.mov'', ''a.json'']"]
  by (simp add: listdir_def path_join_def)

text \<open>
  C5. A directory that lists exactly \<open>a_calibration.json\<close> and \<open>a.mov\<close> is paired into
  the one pair of \<open>a.json\<close> and \<open>a.mov\<close> under the directory, which is also the result
  for a directory that lists \<open>a.json\<close> and \<open>a.mov\<close>: the marker \<open>_calibration\<close> is
  removed from the stem.
\<close>

theorem pairing_calibration_suffix:
  assumes "listdir w rdir = Inr entries"
    and "entries = [''a_calibration.json'', ''a.mov'']
         \<or> entries = [''a.mov'', ''a_calibration.json'']"
    and "listdir w' rdir = Inr entries'"
    and "entries' = [''a.json'', ''a.mov''] \<or> entries' = [''a.mov'', ''a.json'']"
  shows "get_paired_data w rdir ''mov'' =
           Inr [(path_join rdir ''a.json'', path_join rdir ''a.mov'')]
       \<and> get_paired_data w rdir ''mov'' = get_paired_data w' rdir ''mov''"
  using assms
  by (auto simp: get_paired_data_def pairs_of_def collect_names_def set_add_def make_pair_def
      base_name_a_json base_name_a_mov base_name_a_calibration_json)

theorem pairing_calibration_suffix_witness:
  "listdir \<lparr>files = Map.empty, dirs = {},
            listing = [''/d'' \<mapsto> [''a_calibration.json'', ''a.mov'']], stdout = []\<rparr> ''/d''
     = Inr [''a_calibration.json'', ''a.mov'']
   \<and> listdir \<lparr>files = Map.empty, dirs = {},
              listing = [''/d'' \<mapsto> [''a.json'', ''a.mov'']], stdout = []\<rparr> ''/d''
     = Inr [''a.json'', ''a.mov'']
   \<and> get_paired_data \<lparr>files = Map.empty, dirs = {},
         listing = [''/d'' \<mapsto> [''a_calibration.json'', ''a.mov'']], stdout = []\<rparr> ''/d'' ''mov''
       = Inr [(''/d/a.json'', ''/d/a.mov'')]
   \<and> get_paired_data \<lparr>files = Map.empty, dirs = {},
         listing = [''/d'' \<mapsto> [''a_calibration.json'', ''a.mov'']], stdout = []\<rparr> ''/d'' ''mov''
       = get_paired_data \<lparr>files = Map.empty, dirs = {},
           listing = [''/d'' \<mapsto> [''a.json'', ''a.mov'']], stdout = []\<rparr> ''/d'' ''mov''"
proof -
  have l1: "listdir \<lparr>files = Map.empty, dirs = {},
            listing = [''/d'' \<mapsto> [''a_calibration.json'', ''a.mov'']], stdout = []\<rparr> ''/d''
     = Inr [''a_calibration.json'', ''a.mov'']"
    by (simp add: listdir_def)
  have l2: "listdir \<lparr>files = Map.empty, dirs = {},
              listing = [''/d'' \<mapsto> [''a.json'', ''a.mov'']], stdout = []\<rparr> ''/d''
     = Inr [''a.json'', ''a.mov'']"
    by (simp add: listdir_def)
  have j: "path_join ''/d'' ''a.json'' = ''/d/a.json''" "path_join ''/d'' ''a.mov'' = ''/d/a.mov''"
    by (simp_all add: path_join_def)
  from pairing_calibration_suffix [OF l1 _ l2] l1 l2 show ?thesis
    unfolding j by blast
qed



section \<open>Properties of decoding\<close>

lemma has_shape_to_ndarray: "has_shape (to_ndarray f) (fheight f) (fwidth f) 3"
  by (auto simp: has_shape_def to_ndarray_def)

lemma decode_loop_no_calibration:
  "decode_loop JNull st idx fs rgb w =
     (Inr (rgb @ map to_ndarray fs),
      if idx = 0 \<and> fs \<noteq> [] then w\<lparr>stdout := stdout w @ [shape (to_ndarray (hd fs))]\<rparr> else w)"
  by (induction fs arbitrary: idx rgb w) (simp_all add: Let_def)

lemma check_frame_raises: "\<exists>e. check_frame cal st idx f = Inl e"
  by (simp add: check_frame_def split: sum.splits)

lemma decode_loop_keeps_files:
  "decode_loop cal st idx fs rgb w = (r, w') \<Longrightarrow> files w' = files w \<and> dirs w' = dirs w"
proof (induction fs arbitrary: idx rgb w)
  case Nil
  then show ?case by simp
next
  case (Cons f fs)
  then show ?case
    by (auto simp: Let_def split: if_splits sum.splits)
qed

lemma decode_loop_calibrated_raises:
  assumes "cal \<noteq> JNull" and "fs \<noteq> []"
  shows "\<exists>e w'. decode_loop cal st idx fs rgb w = (Inl e, w')"
proof -
  from assms(2) obtain f rest where fs: "fs = f # rest"
    by (cases fs) auto
  obtain e where "check_frame cal st idx f = Inl e"
    using check_frame_raises by blast
  with assms(1) fs show ?thesis
    by (simp add: Let_def)
qed

lemma load_video_keeps_files:
  "load_video w fp cal = (r, w') \<Longrightarrow> files w' = files w \<and> dirs w' = dirs w"
  unfolding load_video_def
  by (auto split: sum.splits if_splits dest: decode_loop_keeps_files)

lemma load_video_no_calibration:
  assumes "files w fp = Some (VideoFile frames)"
  shows "\<exists>w1. load_video w fp JNull = (Inr (map to_ndarray frames), w1) \<and> files w1 = files w"
  using assms by (simp add: load_video_def av_open_def decode_video_def decode_loop_no_calibration)

lemma example_video: "files example_world ''/d/a.mov'' = Some (VideoFile [example_frame])"
  by (simp add: example_world_def)

lemma to_ndarray_example: "to_ndarray example_frame = [[[0, 1, 2], [10, 11, 12]]]"
  by (simp add: to_ndarray_def example_frame_def numeral_3_eq_3 numeral_2_eq_2)

text \<open>
  C7. A video file that decodes to \<open>N\<close> frames, loaded without calibration data, gives
  a list of \<open>N\<close> arrays in decode order: element \<open>i\<close> is the array of frame \<open>i\<close>, of
  shape height by width by 3 for the height and width of that frame.
\<close>

theorem load_video_returns_all_frames:
  assumes "files w fp = Some (VideoFile frames)"
  shows "\<exists>rgb w'. load_video w fp JNull = (Inr rgb, w')
           \<and> length rgb = length frames
           \<and> (\<forall>i < length frames.
                 rgb ! i = to_ndarray (frames ! i)
                 \<and> has_shape (rgb ! i) (fheight (frames ! i)) (fwidth (frames ! i)) 3)"
  using assms
  by (simp add: load_video_def av_open_def decode_video_def decode_loop_no_calibration has_shape_to_ndarray)

theorem load_video_returns_all_frames_witness:
  "files example_world ''/d/a.mov'' = Some (VideoFile [example_frame])
   \<and> (\<exists>rgb w'. load_video example_world ''/d/a.mov'' JNull = (Inr rgb, w')
         \<and> length rgb = 1
         \<and> rgb ! 0 = [[[0, 1, 2], [10, 11, 12]]]
         \<and> has_shape (rgb ! 0) 1 2 3)"
  using load_video_returns_all_frames [OF example_video] example_video
  by (simp add: to_ndarray_example) (simp add: example_frame_def)

text \<open>
  C2. With a calibration record that is not \<open>None\<close> and a video of at least one frame,
  \<open>load_video\<close> always raises: no such call returns a frame list. When the first frame
  passes the tolerance check of line 33, in particular when every frame agrees with
  the calibration record, the exception is the \<open>NameError\<close> of line 34.
\<close>

theorem load_video_calibrated_always_raises:
  assumes "calibration_data \<noteq> JNull"
    and "files w fp = Some (VideoFile frames)"
    and "frames \<noteq> []"
  shows "(\<exists>e w'. load_video w fp calibration_data = (Inl e, w'))
       \<and> (\<forall>start_time d.
             subscript_key calibration_data ''sessionStartTime'' = Inr start_time
             \<and> discrepancy calibration_data start_time 0 (hd frames) = Inr d
             \<and> d < 1 / 1000
             \<longrightarrow> fst (load_video w fp calibration_data) = Inl NameError)"
proof
  show "\<exists>e w'. load_video w fp calibration_data = (Inl e, w')"
  proof (cases "subscript_key calibration_data ''sessionStartTime''")
    case (Inl e)
    with assms show ?thesis
      by (simp add: load_video_def av_open_def decode_video_def)
  next
    case (Inr st)
    with assms decode_loop_calibrated_raises [OF assms(1) assms(3), of st 0 "[]" w]
    show ?thesis
      by (simp add: load_video_def av_open_def decode_video_def)
  qed
next
  from assms(3) obtain f rest where fs: "frames = f # rest"
    by (cases frames) auto
  show "\<forall>start_time d.
             subscript_key calibration_data ''sessionStartTime'' = Inr start_time
             \<and> discrepancy calibration_data start_time 0 (hd frames) = Inr d
             \<and> d < 1 / 1000
             \<longrightarrow> fst (load_video w fp calibration_data) = Inl NameError"
    using assms(1,2) fs
    by (simp add: load_video_def av_open_def decode_video_def Let_def check_frame_def)
qed

theorem load_video_calibrated_always_raises_witness:
  "calibration_matching \<noteq> JNull
   \<and> files example_world ''/d/a.mov'' = Some (VideoFile [example_frame])
   \<and> [example_frame] \<noteq> []
   \<and> subscript_key calibration_matching ''sessionStartTime'' = Inr (JNum 100)
   \<and> discrepancy calibration_matching (JNum 100) 0 (hd [example_frame]) = Inr 0
   \<and> (0 :: rat) < 1 / 1000
   \<and> (\<exists>e w'. load_video example_world ''/d/a.mov'' calibration_matching = (Inl e, w'))
   \<and> fst (load_video example_world ''/d/a.mov'' calibration_matching) = Inl NameError"
proof -
  have c: "calibration_matching \<noteq> JNull"
    by (simp add: calibration_matching_def)
  have s: "subscript_key calibration_matching ''sessionStartTime'' = Inr (JNum 100)"
    by (simp add: calibration_matching_def)
  have d: "discrepancy calibration_matching (JNum 100) 0 (hd [example_frame]) = Inr 0"
    by (simp add: calibration_matching_def discrepancy_def abs_timestamp_def
        recorded_timestamp_def example_frame_def)
  have n: "[example_frame] \<noteq> []"
    by simp
  from load_video_calibrated_always_raises [OF c example_video n] c s d example_video
  show ?thesis
    by simp
qed

text \<open>
  C1. With a calibration record, if for some frame index the presentation time plus
  the session start time differs from the recorded timestamp by more than 1/1000, then
  \<open>load_video\<close> raises, and the files and directories are what they were when it was
  called. In the loop body of \<open>main\<close> an error of the decoding step ends the pair with
  no file written and no directory made: every write of a pair comes after decoding.
\<close>

theorem load_video_mismatch_raises_before_writes:
  assumes "calibration_data \<noteq> JNull"
    and "files w fp = Some (VideoFile frames)"
    and "subscript_key calibration_data ''sessionStartTime'' = Inr start_time"
    and "idx < length frames"
    and "discrepancy calibration_data start_time idx (frames ! idx) = Inr d"
    and "1 / 1000 < d"
  shows "(\<exists>e w'. load_video w fp calibration_data = (Inl e, w')
            \<and> files w' = files w \<and> dirs w' = dirs w)
       \<and> (\<forall>outdir i pair w0 e w1.
             load_video w0 (snd pair) JNull = (Inl e, w1)
             \<longrightarrow> (\<exists>e'. fst (process_pair outdir i pair w0) = Inl e')
                 \<and> files (snd (process_pair outdir i pair w0)) = files w0
                 \<and> dirs (snd (process_pair outdir i pair w0)) = dirs w0)"
proof
  from assms(4) have "frames \<noteq> []" by auto
  with assms(1,2,3) decode_loop_calibrated_raises [of calibration_data frames start_time 0 "[]" w]
  obtain e w' where r: "load_video w fp calibration_data = (Inl e, w')"
    by (auto simp: load_video_def av_open_def decode_video_def)
  with load_video_keeps_files [OF r] 
  show "\<exists>e w'. load_video w fp calibration_data = (Inl e, w')
            \<and> files w' = files w \<and> dirs w' = dirs w"
    by blast
next
  show "\<forall>outdir i pair w0 e w1.
             load_video w0 (snd pair) JNull = (Inl e, w1)
             \<longrightarrow> (\<exists>e'. fst (process_pair outdir i pair w0) = Inl e')
                 \<and> files (snd (process_pair outdir i pair w0)) = files w0
                 \<and> dirs (snd (process_pair outdir i pair w0)) = dirs w0"
  proof (intro allI impI)
    fix outdir i and pair :: "string \<times> string" and w0 e w1
    assume lv: "load_video w0 (snd pair) JNull = (Inl e, w1)"
    note keep = load_video_keeps_files [OF lv]
    show "(\<exists>e'. fst (process_pair outdir i pair w0) = Inl e')
          \<and> files (snd (process_pair outdir i pair w0)) = files w0
          \<and> dirs (snd (process_pair outdir i pair w0)) = dirs w0"
      using lv keep by (cases "load_json w0 (fst pair)") (simp_all add: process_pair_def)
  qed
qed

theorem load_video_mismatch_raises_before_writes_witness:
  "calibration_deviating \<noteq> JNull
   \<and> files example_world ''/d/a.mov'' = Some (VideoFile [example_frame])
   \<and> subscript_key calibration_deviating ''sessionStartTime'' = Inr (JNum 100)
   \<and> (0 :: nat) < length [example_frame]
   \<and> discrepancy calibration_deviating (JNum 100) 0 ([example_frame] ! 0) = Inr 5
   \<and> (1 :: rat) / 1000 < 5
   \<and> (\<exists>e w'. load_video example_world ''/d/a.mov'' calibration_deviating = (Inl e, w')
         \<and> files w' = files example_world \<and> dirs w' = dirs example_world)
   \<and> load_video example_world (snd (''/d/a.json'', ''/d/b.mov'')) JNull
       = (Inl FileNotFoundError, example_world)
   \<and> (\<exists>e'. fst (process_pair ''out'' 0 (''/d/a.json'', ''/d/b.mov'') example_world) = Inl e')
   \<and> files (snd (process_pair ''out'' 0 (''/d/a.json'', ''/d/b.mov'') example_world))
       = files example_world
   \<and> dirs (snd (process_pair ''out'' 0 (''/d/a.json'', ''/d/b.mov'') example_world))
       = dirs example_world"
proof -
  have c: "calibration_deviating \<noteq> JNull"
    by (simp add: calibration_deviating_def)
  have s: "subscript_key calibration_deviating ''sessionStartTime'' = Inr (JNum 100)"
    by (simp add: calibration_deviating_def)
  have i: "(0 :: nat) < length [example_frame]"
    by simp
  have d: "discrepancy calibration_deviating (JNum 100) 0 ([example_frame] ! 0) = Inr 5"
    by (simp add: calibration_deviating_def discrepancy_def abs_timestamp_def
        recorded_timestamp_def example_frame_def)
  have t: "(1 :: rat) / 1000 < 5"
    by simp
  have m: "load_video example_world (snd (''/d/a.json'', ''/d/b.mov'')) JNull
             = (Inl FileNotFoundError, example_world)"
    by (simp add: load_video_def av_open_def decode_video_def example_world_def)
  note inst = load_video_mismatch_raises_before_writes [OF c example_video s i d t]
  from inst have a: "\<exists>e w'. load_video example_world ''/d/a.mov'' calibration_deviating = (Inl e, w')
         \<and> files w' = files example_world \<and> dirs w' = dirs example_world"
    by blast
  from inst m have b: "(\<exists>e'. fst (process_pair ''out'' 0 (''/d/a.json'', ''/d/b.mov'') example_world) = Inl e')
   \<and> files (snd (process_pair ''out'' 0 (''/d/a.json'', ''/d/b.mov'') example_world))
       = files example_world
   \<and> dirs (snd (process_pair ''out'' 0 (''/d/a.json'', ''/d/b.mov'') example_world))
       = dirs example_world"
    by blast
  from c example_video s i d t a m b show ?thesis
    by blast
qed

section \<open>Properties of the image transform\<close>

lemma has_shape_row: "has_shape a h w c \<Longrightarrow> i < h \<Longrightarrow> length (a ! i) = w"
  by (auto simp: has_shape_def)

lemma has_shape_px: "has_shape a h w c \<Longrightarrow> i < h \<Longrightarrow> j < w \<Longrightarrow> length (a ! i ! j) = c"
  by (auto simp: has_shape_def) (metis nth_mem)

lemma has_shape_length: "has_shape a h w c \<Longrightarrow> length a = h"
  by (simp add: has_shape_def)

lemma has_shape_ncols: "has_shape a h w c \<Longrightarrow> 0 < h \<Longrightarrow> ncols a = w"
  by (cases a) (auto simp: has_shape_def ncols_def)

lemma length_swap_rb: "length (swap_rb px) = length px"
  by (cases px rule: swap_rb.cases) simp_all

lemma swap_rb_twice: "swap_rb (swap_rb px) = px"
  by (cases px rule: swap_rb.cases) simp_all

lemma has_shape_swap: "has_shape a h w c \<Longrightarrow> has_shape (map (map swap_rb) a) h w c"
  by (auto simp: has_shape_def length_swap_rb)

lemma cvtColor_rgb:
  assumes "has_shape a h w 3" and "0 < h" and "0 < w"
  shows "cvtColor_RGB2BGR a = Inr (map (map swap_rb) a)"
proof -
  from assms have r: "length (a ! 0) = w" and p: "length (a ! 0 ! 0) = 3"
    by (auto simp: has_shape_row has_shape_px)
  from assms have "a ! 0 \<in> set a"
    by (simp add: has_shape_def)
  moreover from r assms(3) have "a ! 0 ! 0 \<in> set (a ! 0)"
    by simp
  moreover from p have "a ! 0 ! 0 \<noteq> []"
    by auto
  ultimately have "concat (concat a) \<noteq> []"
    by auto
  moreover from assms(1) have "\<not> (\<exists>row \<in> set a. \<exists>px \<in> set row. length px \<noteq> 3 \<and> length px \<noteq> 4)"
    by (auto simp: has_shape_def)
  ultimately show ?thesis
    by (simp add: cvtColor_RGB2BGR_def)
qed

lemma has_shape_rotate:
  assumes "has_shape a h w c" and "0 < h"
  shows "has_shape (rotate_90_clockwise a) w h c"
proof -
  from assms have n: "ncols a = w" and l: "length a = h"
    by (simp_all add: has_shape_ncols has_shape_length)
  have "length (a ! (h - 1 - j) ! i) = c" if "i < w" "j < h" for i j
    using that assms by (intro has_shape_px [OF assms(1)]) auto
  then show ?thesis
    by (auto simp: has_shape_def rotate_90_clockwise_def Let_def n l)
qed

lemma rotate_back:
  assumes "has_shape a h w c" and "0 < h" and "0 < w"
  shows "rotate_90_counterclockwise (rotate_90_clockwise a) = a"
proof -
  let ?r = "rotate_90_clockwise a"
  from assms have n: "ncols a = w" and l: "length a = h"
    by (simp_all add: has_shape_ncols has_shape_length)
  have rs: "has_shape ?r w h c"
    using assms by (simp add: has_shape_rotate)
  then have rn: "ncols ?r = h" and rl: "length ?r = w"
    using assms by (simp_all add: has_shape_ncols has_shape_length)
  show ?thesis
  proof (rule nth_equalityI)
    show "length (rotate_90_counterclockwise ?r) = length a"
      by (simp add: rotate_90_counterclockwise_def Let_def rn l)
  next
    fix i
    assume "i < length (rotate_90_counterclockwise ?r)"
    then have i: "i < h"
      by (simp add: rotate_90_counterclockwise_def Let_def rn)
    show "rotate_90_counterclockwise ?r ! i = a ! i"
    proof (rule nth_equalityI)
      show "length (rotate_90_counterclockwise ?r ! i) = length (a ! i)"
        using i has_shape_row [OF assms(1) i]
        by (simp add: rotate_90_counterclockwise_def Let_def rn rl)
    next
      fix j
      assume "j < length (rotate_90_counterclockwise ?r ! i)"
      then have j: "j < w"
        using i by (simp add: rotate_90_counterclockwise_def Let_def rn rl)
      have "rotate_90_counterclockwise ?r ! i ! j = ?r ! j ! (h - 1 - i)"
        using i j by (simp add: rotate_90_counterclockwise_def Let_def rn rl)
      also have "\<dots> = a ! (h - 1 - (h - 1 - i)) ! j"
        using i j by (simp add: rotate_90_clockwise_def Let_def n l)
      also have "h - 1 - (h - 1 - i) = i"
        using i by arith
      finally show "rotate_90_counterclockwise ?r ! i ! j = a ! i ! j" .
    qed
  qed
qed

lemma transform_frame_rgb:
  assumes "has_shape a h w 3" and "0 < h" and "0 < w"
  shows "transform_frame a = Inr (rotate_90_clockwise (map (map swap_rb) a))"
  using assms by (simp add: transform_frame_def cvtColor_rgb)

lemma example_array_shape: "has_shape [[[0, 1, 2], [10, 11, 12]]] 1 2 3"
  by (simp add: has_shape_def)

text \<open>
  C3. For an image of \<open>h\<close> rows, \<open>w\<close> columns and 3 channels, both positive, as every
  decoded frame is, the transform applied before writing succeeds, and rotating its
  result 90 degrees counter-clockwise and swapping the channels back gives the image
  again, exactly.
\<close>

theorem transform_is_invertible:
  assumes "has_shape frame h w 3" and "0 < h" and "0 < w"
  shows "\<exists>img. transform_frame frame = Inr img \<and> inverse_transform img = Inr frame"
proof -
  let ?bgr = "map (map swap_rb) frame"
  have s: "has_shape ?bgr h w 3"
    using assms(1) by (rule has_shape_swap)
  have "inverse_transform (rotate_90_clockwise ?bgr) = cvtColor_RGB2BGR ?bgr"
    using rotate_back [OF s assms(2,3)] by (simp add: inverse_transform_def cvtColor_BGR2RGB_def)
  also have "\<dots> = Inr (map (map swap_rb) ?bgr)"
    using s assms(2,3) by (rule cvtColor_rgb)
  also have "map (map swap_rb) ?bgr = frame"
    by (simp add: swap_rb_twice comp_def)
  finally show ?thesis
    using assms by (simp add: transform_frame_rgb)
qed

theorem transform_is_invertible_witness:
  "has_shape [[[0, 1, 2], [10, 11, 12]]] 1 2 3 \<and> (0 :: nat) < 1 \<and> (0 :: nat) < 2
   \<and> (\<exists>img. transform_frame [[[0, 1, 2], [10, 11, 12]]] = Inr img
          \<and> inverse_transform img = Inr [[[0, 1, 2], [10, 11, 12]]])"
  using transform_is_invertible [OF example_array_shape] example_array_shape
  by simp

section \<open>Properties of the writing stage\<close>

lemma digit_char_code:
  assumes "d < 10"
  shows "(of_char (digit_char d) :: nat) = 48 + d"
proof -
  from assms have "d = 0 \<or> d = 1 \<or> d = 2 \<or> d = 3 \<or> d = 4 \<or> d = 5 \<or> d = 6 \<or> d = 7 \<or> d = 8 \<or> d = 9"
    by arith
  then show ?thesis
    by (elim disjE) (simp_all add: digit_char_def)
qed

lemma digit_char_inj:
  assumes "d < 10" and "e < 10" and "digit_char d = digit_char e"
  shows "d = e"
proof -
  have "(of_char (digit_char d) :: nat) = of_char (digit_char e)"
    by (simp only: assms(3))
  then have "48 + d = 48 + e"
    by (simp only: digit_char_code [OF assms(1)] digit_char_code [OF assms(2)])
  then show ?thesis
    by simp
qed

lemma str_of_nat_nonempty: "str_of_nat n \<noteq> []"
  by (subst str_of_nat.simps) simp

lemma str_of_nat_digits:
  "c \<in> set (str_of_nat n) \<Longrightarrow> 48 \<le> (of_char c :: nat) \<and> (of_char c :: nat) \<le> 57"
proof (induction n rule: str_of_nat.induct)
  case (1 n)
  show ?case
  proof (cases "n < 10")
    case True
    with "1.prems" have "c = digit_char n"
      by (subst (asm) str_of_nat.simps) simp
    with True digit_char_code [of n] show ?thesis
      by simp
  next
    case False
    with "1.prems" have "c \<in> set (str_of_nat (n div 10)) \<or> c = digit_char (n mod 10)"
      by (subst (asm) str_of_nat.simps) auto
    then show ?thesis
    proof
      assume "c \<in> set (str_of_nat (n div 10))"
      with "1.IH" False show ?thesis by simp
    next
      assume "c = digit_char (n mod 10)"
      with digit_char_code [of "n mod 10"] show ?thesis by simp
    qed
  qed
qed

lemma str_of_nat_inj: "str_of_nat m = str_of_nat n \<Longrightarrow> m = n"
proof (induction m arbitrary: n rule: str_of_nat.induct)
  case (1 m)
  show ?case
  proof (cases "m < 10")
    case m: True
    show ?thesis
    proof (cases "n < 10")
      case True
      with m "1.prems" have "digit_char m = digit_char n"
        by (simp add: str_of_nat.simps [of m] str_of_nat.simps [of n])
      with m True show ?thesis
        by (intro digit_char_inj)
    next
      case False
      with m "1.prems" have "str_of_nat (n div 10) = []"
        by (simp add: str_of_nat.simps [of m] str_of_nat.simps [of n])
      with str_of_nat_nonempty show ?thesis
        by blast
    qed
  next
    case m: False
    show ?thesis
    proof (cases "n < 10")
      case True
      with m "1.prems" have "str_of_nat (m div 10) = []"
        by (simp add: str_of_nat.simps [of m] str_of_nat.simps [of n])
      with str_of_nat_nonempty show ?thesis
        by blast
    next
      case False
      with m "1.prems" have "str_of_nat (m div 10) = str_of_nat (n div 10)"
        and d: "digit_char (m mod 10) = digit_char (n mod 10)"
        by (simp_all add: str_of_nat.simps [of m] str_of_nat.simps [of n])
      with "1.IH" m have "m div 10 = n div 10"
        by simp
      moreover from d have "m mod 10 = n mod 10"
        by (intro digit_char_inj) simp_all
      ultimately show ?thesis
        by (metis div_mult_mod_eq)
    qed
  qed
qed

lemma path_join_relative:
  "b \<noteq> [] \<Longrightarrow> hd b \<noteq> CHR ''/'' \<Longrightarrow>
   path_join a b = (if a = [] \<or> last a = CHR ''/'' then a else a @ ''/'') @ b"
  by (simp add: path_join_def)

lemma hd_str_of_nat_not_slash: "hd (str_of_nat n @ s) \<noteq> CHR ''/''"
proof
  assume h: "hd (str_of_nat n @ s) = CHR ''/''"
  have "hd (str_of_nat n) \<in> set (str_of_nat n)"
    using str_of_nat_nonempty by simp
  from str_of_nat_digits [OF this] h str_of_nat_nonempty [of n] show False
    by simp
qed

lemma hd_str_of_nat_not_c: "hd (str_of_nat n @ s) \<noteq> CHR ''c''"
proof
  assume h: "hd (str_of_nat n @ s) = CHR ''c''"
  have "hd (str_of_nat n) \<in> set (str_of_nat n)"
    using str_of_nat_nonempty by simp
  from str_of_nat_digits [OF this] h str_of_nat_nonempty [of n] show False
    by simp
qed

lemma frame_path_relative:
  "frame_path vo i = (if vo = [] \<or> last vo = CHR ''/'' then vo else vo @ ''/'') @ str_of_nat i @ ''.png''"
  unfolding frame_path_def
  using hd_str_of_nat_not_slash [of i "''.png''"]
  by (intro path_join_relative) (simp_all add: str_of_nat_nonempty)

lemma frame_path_inj:
  assumes "frame_path vo i = frame_path vo j"
  shows "i = j"
proof -
  from assms have "str_of_nat i = str_of_nat j"
    by (simp add: frame_path_relative)
  then show ?thesis
    by (rule str_of_nat_inj)
qed

lemma frame_path_not_calibration: "frame_path vo i \<noteq> path_join vo ''calibration.json''"
proof
  assume "frame_path vo i = path_join vo ''calibration.json''"
  then have "str_of_nat i @ ''.png'' = ''calibration.json''"
    by (simp add: frame_path_relative path_join_relative)
  then have "hd (str_of_nat i @ ''.png'') = CHR ''c''"
    by simp
  with hd_str_of_nat_not_c show False
    by blast
qed

lemma is_rgb_image_shape: "is_rgb_image a \<Longrightarrow> \<exists>h w. 0 < h \<and> 0 < w \<and> has_shape a h w 3"
  by (auto simp: is_rgb_image_def)

lemma is_rgb_image_to_ndarray:
  assumes "0 < fheight f" and "0 < fwidth f"
  shows "is_rgb_image (to_ndarray f)"
proof -
  have l: "length (to_ndarray f) = fheight f"
    by (simp add: to_ndarray_def)
  with assms have n: "to_ndarray f \<noteq> []"
    by auto
  have "hd (to_ndarray f) = to_ndarray f ! 0"
    using n by (simp add: hd_conv_nth)
  with assms have h: "length (hd (to_ndarray f)) = fwidth f"
    by (simp add: to_ndarray_def)
  with assms have "hd (to_ndarray f) \<noteq> []"
    by auto
  with n l h has_shape_to_ndarray [of f] show ?thesis
    by (simp add: is_rgb_image_def)
qed

lemma write_frames_result:
  assumes "\<forall>fr \<in> set frames. is_rgb_image fr"
  shows "\<exists>w'. write_frames vo k frames w = (Inr (), w')
           \<and> (\<forall>i < length frames.
                 files w' (frame_path vo (k + i))
                   = Some (ImageFile (rotate_90_clockwise (map (map swap_rb) (frames ! i)))))
           \<and> (\<forall>p. p \<notin> frame_path vo ` {k ..< k + length frames} \<longrightarrow> files w' p = files w p)"
  using assms
proof (induction frames arbitrary: k w)
  case Nil
  then show ?case by simp
next
  case (Cons fr rest)
  let ?img = "rotate_90_clockwise (map (map swap_rb) fr)"
  let ?w1 = "imwrite w (frame_path vo k) ?img"
  from Cons.prems have "is_rgb_image fr"
    by simp
  from is_rgb_image_shape [OF this] obtain h wd where "0 < h" "0 < wd" "has_shape fr h wd 3"
    by blast
  then have t: "transform_frame fr = Inr ?img"
    by (simp add: transform_frame_rgb)
  from Cons.prems have "\<forall>fr \<in> set rest. is_rgb_image fr"
    by simp
  from Cons.IH [OF this, of "Suc k" ?w1] obtain w' where
    r: "write_frames vo (Suc k) rest ?w1 = (Inr (), w')"
    and a: "\<forall>i < length rest. files w' (frame_path vo (Suc k + i))
              = Some (ImageFile (rotate_90_clockwise (map (map swap_rb) (rest ! i))))"
    and b: "\<forall>p. p \<notin> frame_path vo ` {Suc k ..< Suc k + length rest} \<longrightarrow> files w' p = files ?w1 p"
    by blast
  have first: "frame_path vo k \<notin> frame_path vo ` {Suc k ..< Suc k + length rest}"
    by (auto dest: frame_path_inj)
  have "files w' (frame_path vo (k + i))
          = Some (ImageFile (rotate_90_clockwise (map (map swap_rb) ((fr # rest) ! i))))"
    if "i < length (fr # rest)" for i
  proof (cases i)
    case 0
    with b first show ?thesis
      by (simp add: imwrite_def)
  next
    case (Suc j)
    with that a show ?thesis
      by simp
  qed
  moreover have "files w' p = files w p" if "p \<notin> frame_path vo ` {k ..< k + length (fr # rest)}" for p
  proof -
    from that have "p \<noteq> frame_path vo k" and "p \<notin> frame_path vo ` {Suc k ..< Suc k + length rest}"
      by auto
    with b show ?thesis
      by (simp add: imwrite_def)
  qed
  ultimately show ?case
    using t r by auto
qed

lemma card_frame_paths: "card (frame_path vo ` {..<n}) = n"
proof -
  have "inj_on (frame_path vo) {..<n}"
    by (rule inj_onI) (rule frame_path_inj)
  then show ?thesis
    by (simp add: card_image)
qed

lemma calibration_path_fresh: "path_join vo ''calibration.json'' \<notin> frame_path vo ` S"
proof
  assume "path_join vo ''calibration.json'' \<in> frame_path vo ` S"
  then obtain i where "frame_path vo i = path_join vo ''calibration.json''"
    by auto
  with frame_path_not_calibration [of vo i] show False
    by simp
qed

lemma write_outputs_result:
  assumes "\<forall>fr \<in> set video_rgb. is_rgb_image fr"
  shows "\<exists>w'. write_outputs vo cal video_rgb w = (Inr (), w')
           \<and> files w' (path_join vo ''calibration.json'') = Some (JsonFile cal)
           \<and> (\<forall>i < length video_rgb.
                 files w' (frame_path vo i)
                   = Some (ImageFile (rotate_90_clockwise (map (map swap_rb) (video_rgb ! i)))))
           \<and> (\<forall>p. p \<noteq> path_join vo ''calibration.json''
                    \<and> p \<notin> frame_path vo ` {..<length video_rgb}
                  \<longrightarrow> files w' p = files w p)"
proof -
  let ?jp = "path_join vo ''calibration.json''"
  let ?w2 = "dump_json (makedirs w vo) ?jp cal"
  from write_frames_result [OF assms, of vo 0 ?w2] obtain w' where
    r: "write_frames vo 0 video_rgb ?w2 = (Inr (), w')"
    and a: "\<forall>i < length video_rgb. files w' (frame_path vo (0 + i))
              = Some (ImageFile (rotate_90_clockwise (map (map swap_rb) (video_rgb ! i))))"
    and b: "\<forall>p. p \<notin> frame_path vo ` {0 ..< 0 + length video_rgb} \<longrightarrow> files w' p = files ?w2 p"
    by blast
  from b have b': "\<forall>p. p \<notin> frame_path vo ` {..<length video_rgb} \<longrightarrow> files w' p = files ?w2 p"
    by (simp add: atLeast0LessThan)
  have nj: "?jp \<notin> frame_path vo ` {..<length video_rgb}"
    by (rule calibration_path_fresh)
  have "files w' ?jp = Some (JsonFile cal)"
    using b' nj by (simp add: dump_json_def makedirs_def)
  moreover have "files w' p = files w p"
    if "p \<noteq> ?jp \<and> p \<notin> frame_path vo ` {..<length video_rgb}" for p
    using b' that by (simp add: dump_json_def makedirs_def)
  ultimately show ?thesis
    using r a by (simp add: write_outputs_def Let_def)
qed

lemma example_array_rgb: "\<forall>fr \<in> set [[[[0, 1, 2], [10, 11, 12]]]]. is_rgb_image fr"
  by (simp add: is_rgb_image_def has_shape_def)

text \<open>
  C8. For a calibration record and a sequence of \<open>N\<close> colour images, the writing stage
  succeeds and writes \<open>N\<close> image files, at \<open>N\<close> distinct paths \<open>0.png\<close> to \<open>N-1.png\<close> of
  the output directory of the pair, and one JSON file \<open>calibration.json\<close> there, at a path
  that is none of the image paths; every other path keeps its content. Loading the
  JSON file afterwards gives the calibration record that was passed in. (A file
  stands for the value stored in it: that \<open>json.load\<close> reads back what \<open>json.dump\<close>
  wrote is part of the file model.)
\<close>

theorem write_outputs_files:
  assumes "\<forall>fr \<in> set video_rgb. is_rgb_image fr"
  shows "\<exists>w'. write_outputs vo cal video_rgb w = (Inr (), w')
           \<and> card (frame_path vo ` {..<length video_rgb}) = length video_rgb
           \<and> path_join vo ''calibration.json'' \<notin> frame_path vo ` {..<length video_rgb}
           \<and> (\<forall>i < length video_rgb. \<exists>img. files w' (frame_path vo i) = Some (ImageFile img))
           \<and> load_json w' (path_join vo ''calibration.json'') = Inr cal
           \<and> (\<forall>p. p \<noteq> path_join vo ''calibration.json''
                    \<and> p \<notin> frame_path vo ` {..<length video_rgb}
                  \<longrightarrow> files w' p = files w p)"
proof -
  from write_outputs_result [OF assms, of vo cal w] obtain w' where
    r: "write_outputs vo cal video_rgb w = (Inr (), w')"
    and j: "files w' (path_join vo ''calibration.json'') = Some (JsonFile cal)"
    and a: "\<forall>i < length video_rgb. files w' (frame_path vo i)
              = Some (ImageFile (rotate_90_clockwise (map (map swap_rb) (video_rgb ! i))))"
    and b: "\<forall>p. p \<noteq> path_join vo ''calibration.json''
                    \<and> p \<notin> frame_path vo ` {..<length video_rgb}
                  \<longrightarrow> files w' p = files w p"
    by blast
  have nj: "path_join vo ''calibration.json'' \<notin> frame_path vo ` {..<length video_rgb}"
    by (rule calibration_path_fresh)
  from j have "load_json w' (path_join vo ''calibration.json'') = Inr cal"
    by (simp add: load_json_def)
  with r a b nj card_frame_paths [of vo "length video_rgb"] show ?thesis
    by simp
qed

theorem write_outputs_files_witness:
  "is_rgb_image [[[0, 1, 2], [10, 11, 12]]]
   \<and> (\<exists>w'. write_outputs ''out/video_0'' calibration_deviating [[[[0, 1, 2], [10, 11, 12]]]]
               example_world = (Inr (), w')
         \<and> card (frame_path ''out/video_0'' ` {..<1}) = 1
         \<and> path_join ''out/video_0'' ''calibration.json'' \<notin> frame_path ''out/video_0'' ` {..<1}
         \<and> (\<exists>img. files w' (frame_path ''out/video_0'' 0) = Some (ImageFile img))
         \<and> load_json w' (path_join ''out/video_0'' ''calibration.json'') = Inr calibration_deviating
         \<and> (\<forall>p. p \<noteq> path_join ''out/video_0'' ''calibration.json''
                  \<and> p \<notin> frame_path ''out/video_0'' ` {..<1}
                \<longrightarrow> files w' p = files example_world p))"
  using write_outputs_files [OF example_array_rgb, of "''out/video_0''" calibration_deviating example_world]
    example_array_rgb
  by simp

lemma example_json: "files example_world (fst (''/d/a.json'', ''/d/a.mov'')) = Some (JsonFile calibration_deviating)"
  by (simp add: example_world_def)

lemma example_video_pair: "files example_world (snd (''/d/a.json'', ''/d/a.mov'')) = Some (VideoFile [example_frame])"
  by (simp add: example_world_def)

lemma example_frame_positive: "\<forall>f \<in> set [example_frame]. 0 < fheight f \<and> 0 < fwidth f"
  by (simp add: example_frame_def)

text \<open>
  C10. When a pair is processed whose video decodes to frames of positive height and
  width, frame \<open>i\<close> is decoded to an array of shape \<open>H\<close> by \<open>W\<close> by 3, the pair is
  processed without error, and the file written for frame \<open>i\<close> holds an image of shape
  \<open>W\<close> by \<open>H\<close> by 3.
\<close>

theorem written_image_is_transposed:
  assumes "files w (fst pair) = Some (JsonFile cal)"
    and "files w (snd pair) = Some (VideoFile frames)"
    and "\<forall>f \<in> set frames. 0 < fheight f \<and> 0 < fwidth f"
    and "i < length frames"
  shows "has_shape (to_ndarray (frames ! i)) (fheight (frames ! i)) (fwidth (frames ! i)) 3
       \<and> (\<exists>w' img. process_pair outdir idx pair w = (Inr (), w')
             \<and> files w' (frame_path (video_outdir_of outdir idx) i) = Some (ImageFile img)
             \<and> has_shape img (fwidth (frames ! i)) (fheight (frames ! i)) 3)"
proof
  show "has_shape (to_ndarray (frames ! i)) (fheight (frames ! i)) (fwidth (frames ! i)) 3"
    by (rule has_shape_to_ndarray)
next
  let ?vo = "video_outdir_of outdir idx"
  let ?rgb = "map to_ndarray frames"
  let ?f = "frames ! i"
  from load_video_no_calibration [OF assms(2)] obtain w1 where
    lv: "load_video w (snd pair) JNull = (Inr ?rgb, w1)"
    by blast
  from assms(1) have lj: "load_json w (fst pair) = Inr cal"
    by (simp add: load_json_def)
  have "\<forall>fr \<in> set ?rgb. is_rgb_image fr"
    using assms(3) by (auto simp: is_rgb_image_to_ndarray)
  from write_outputs_result [OF this, of ?vo cal w1] obtain w' where
    r: "write_outputs ?vo cal ?rgb w1 = (Inr (), w')"
    and a: "\<forall>i < length ?rgb. files w' (frame_path ?vo i)
              = Some (ImageFile (rotate_90_clockwise (map (map swap_rb) (?rgb ! i))))"
    by blast
  from assms(3,4) have pos: "0 < fheight ?f" "0 < fwidth ?f"
    by simp_all
  have "has_shape (map (map swap_rb) (to_ndarray ?f)) (fheight ?f) (fwidth ?f) 3"
    by (intro has_shape_swap has_shape_to_ndarray)
  from has_shape_rotate [OF this pos(1)]
  have "has_shape (rotate_90_clockwise (map (map swap_rb) (to_ndarray ?f))) (fwidth ?f) (fheight ?f) 3" .
  moreover from a assms(4)
  have "files w' (frame_path ?vo i)
          = Some (ImageFile (rotate_90_clockwise (map (map swap_rb) (to_ndarray ?f))))"
    by simp
  moreover from lj lv r have "process_pair outdir idx pair w = (Inr (), w')"
    by (simp add: process_pair_def)
  ultimately show "\<exists>w' img. process_pair outdir idx pair w = (Inr (), w')
             \<and> files w' (frame_path (video_outdir_of outdir idx) i) = Some (ImageFile img)
             \<and> has_shape img (fwidth (frames ! i)) (fheight (frames ! i)) 3"
    by blast
qed

theorem written_image_is_transposed_witness:
  "files example_world (fst (''/d/a.json'', ''/d/a.mov'')) = Some (JsonFile calibration_deviating)
   \<and> files example_world (snd (''/d/a.json'', ''/d/a.mov'')) = Some (VideoFile [example_frame])
   \<and> 0 < fheight example_frame \<and> 0 < fwidth example_frame
   \<and> (0 :: nat) < length [example_frame]
   \<and> has_shape (to_ndarray ([example_frame] ! 0)) 1 2 3
   \<and> (\<exists>w' img. process_pair ''out'' 0 (''/d/a.json'', ''/d/a.mov'') example_world = (Inr (), w')
         \<and> files w' (frame_path (video_outdir_of ''out'' 0) 0) = Some (ImageFile img)
         \<and> has_shape img 2 1 3)"
proof -
  have i: "(0 :: nat) < length [example_frame]"
    by simp
  have d: "fheight ([example_frame] ! 0) = 1" "fwidth ([example_frame] ! 0) = 2"
    by (simp_all add: example_frame_def)
  from written_image_is_transposed [OF example_json example_video_pair example_frame_positive i,
      of "''out''" 0]
    example_json example_video_pair example_frame_positive i
  show ?thesis
    unfolding d by simp
qed

section \<open>Properties of the orchestration\<close>

lemma load_video_no_calibration_errors:
  assumes "load_video w fp JNull = (Inl e, w')"
  shows "e \<noteq> AssertionError \<and> e \<noteq> NameError"
proof (cases "av_open w fp")
  case (Inl e1)
  with assms have "e = e1"
    by (simp add: load_video_def)
  with Inl show ?thesis
    by (auto simp: av_open_def split: option.splits file_content.splits)
next
  case (Inr container)
  with assms show ?thesis
    by (cases container) (auto simp: load_video_def decode_video_def decode_loop_no_calibration)
qed

lemma load_json_errors:
  "load_json w fp = Inl e \<Longrightarrow> e \<noteq> AssertionError \<and> e \<noteq> NameError"
  by (auto simp: load_json_def split: option.splits file_content.splits)

lemma transform_frame_errors: "transform_frame x = Inl e \<Longrightarrow> e = CvError"
  by (auto simp: transform_frame_def cvtColor_RGB2BGR_def split: if_splits sum.splits)

lemma write_frames_errors: "write_frames vo idx fs w = (Inl e, w') \<Longrightarrow> e = CvError"
  by (induction fs arbitrary: idx w) (auto split: sum.splits dest: transform_frame_errors)

lemma process_pair_errors:
  assumes "process_pair outdir idx pair w = (Inl e, w')"
  shows "e \<noteq> AssertionError \<and> e \<noteq> NameError"
proof (cases "load_json w (fst pair)")
  case (Inl e1)
  with assms have "e = e1" by (simp add: process_pair_def)
  with Inl load_json_errors show ?thesis
    by blast
next
  case (Inr cal)
  obtain r w1 where lv: "load_video w (snd pair) JNull = (r, w1)"
    by (cases "load_video w (snd pair) JNull") auto
  show ?thesis
  proof (cases r)
    case (Inl e1)
    with assms Inr lv have "e = e1" by (simp add: process_pair_def)
    with load_video_no_calibration_errors lv Inl show ?thesis by blast
  next
    case (Inr rgb)
    with assms \<open>load_json w (fst pair) = Inr cal\<close> lv
    have "write_frames (video_outdir_of outdir idx) 0 rgb
            (dump_json (makedirs w1 (video_outdir_of outdir idx))
               (path_join (video_outdir_of outdir idx) ''calibration.json'') cal) = (Inl e, w')"
      by (simp add: process_pair_def write_outputs_def Let_def)
    from write_frames_errors [OF this] show ?thesis by simp
  qed
qed

lemma process_pairs_errors:
  "process_pairs outdir idx ps w = (Inl e, w')
   \<Longrightarrow> e \<noteq> AssertionError \<and> e \<noteq> NameError"
proof (induction ps arbitrary: idx w)
  case Nil
  then show ?case by simp
next
  case (Cons p ps)
  obtain r w1 where pp: "process_pair outdir idx p w = (r, w1)"
    by (cases "process_pair outdir idx p w") auto
  show ?case
  proof (cases r)
    case (Inl e1)
    with Cons.prems pp have "e = e1" by simp
    with process_pair_errors pp Inl show ?thesis by blast
  next
    case (Inr u)
    with Cons.prems pp have "process_pairs outdir (Suc idx) ps w1 = (Inl e, w')" by simp
    from Cons.IH [OF this] show ?thesis .
  qed
qed

lemma process_pair_succeeds:
  assumes "files w (fst pair) = Some (JsonFile cal)"
    and "files w (snd pair) = Some (VideoFile frames)"
    and "\<forall>f \<in> set frames. 0 < fheight f \<and> 0 < fwidth f"
  shows "\<exists>w'. process_pair outdir idx pair w = (Inr (), w')"
proof -
  from load_video_no_calibration [OF assms(2)] obtain w1 where
    lv: "load_video w (snd pair) JNull = (Inr (map to_ndarray frames), w1)"
    by blast
  from assms(1) have lj: "load_json w (fst pair) = Inr cal"
    by (simp add: load_json_def)
  have "\<forall>fr \<in> set (map to_ndarray frames). is_rgb_image fr"
    using assms(3) by (auto simp: is_rgb_image_to_ndarray)
  from write_outputs_result [OF this, of "video_outdir_of outdir idx" cal w1] obtain w' where
    "write_outputs (video_outdir_of outdir idx) cal (map to_ndarray frames) w1 = (Inr (), w')"
    by blast
  with lj lv show ?thesis
    by (simp add: process_pair_def)
qed

lemma capture_pairs:
  "get_paired_data (makedirs capture_world d) root_dir ''mov''
     = Inr [(path_join root_dir ''a.json'', path_join root_dir ''a.mov'')]"
  by (simp add: get_paired_data_def listdir_def makedirs_def capture_world_def pairs_of_def
      collect_names_def set_add_def make_pair_def base_name_a_json base_name_a_mov)

lemma capture_paths_differ: "path_join root_dir ''a.json'' \<noteq> path_join root_dir ''a.mov''"
  by (simp add: path_join_def root_dir_def)

text \<open>
  C9. \<open>main\<close> calls \<open>load_video\<close> without calibration data for every pair, so the
  timestamp check is never run: no run of \<open>main\<close> ends with \<open>AssertionError\<close>, the
  timestamp mismatch of line 33, nor with the \<open>NameError\<close> of line 34. The witness is a
  run over a capture whose calibration record is five seconds off: it ends normally.
\<close>

theorem main_never_validates_timestamps:
  "fst (main now w) \<notin> {Inl AssertionError, Inl NameError}"
proof (cases "main now w")
  case (Pair r w')
  show ?thesis
  proof (cases r)
    case (Inr u)
    with Pair show ?thesis by simp
  next
    case (Inl e)
    with Pair have "e \<noteq> AssertionError \<and> e \<noteq> NameError"
      by (auto simp: main_def Let_def get_paired_data_def listdir_def
          split: sum.splits option.splits dest: process_pairs_errors)
    with Pair Inl show ?thesis by auto
  qed
qed

theorem main_never_validates_timestamps_witness:
  "fst (main ''19_Feb_2026_10.17'' capture_world) = Inr ()
   \<and> fst (main ''19_Feb_2026_10.17'' capture_world) \<notin> {Inl AssertionError, Inl NameError}"
proof -
  let ?out = "path_join ''parsed_videos'' ''19_Feb_2026_10.17''"
  let ?w0 = "makedirs capture_world ?out"
  let ?pair = "(path_join root_dir ''a.json'', path_join root_dir ''a.mov'')"
  have j: "files ?w0 (fst ?pair) = Some (JsonFile calibration_deviating)"
    using capture_paths_differ by (simp add: makedirs_def capture_world_def)
  have v: "files ?w0 (snd ?pair) = Some (VideoFile [example_frame])"
    by (simp add: makedirs_def capture_world_def)
  from process_pair_succeeds [OF j v example_frame_positive, of ?out 0] obtain w' where
    "process_pair ?out 0 ?pair ?w0 = (Inr (), w')"
    by blast
  then have "fst (main ''19_Feb_2026_10.17'' capture_world) = Inr ()"
    by (simp add: main_def Let_def capture_pairs)
  with main_never_validates_timestamps [of "''19_Feb_2026_10.17''" capture_world] show ?thesis
    by simp
qed

end
